theory Spec2Isabelle
  imports Main "HOL-Library.Product_Lexorder"
begin

section \<open>The snake environment: data model\<close>

text \<open>
  The development embeds \<^verbatim>\<open>snake/objects/snake_head.py\<close> (Level, SnakeHead,
  SnakePiece, Cherry) and \<^verbatim>\<open>snake/env.py\<close> (SnakeGameState, SnakeEnv).
  Python's unbounded integers are \<^typ>\<open>int\<close>; a raise is a value of \<open>error\<close>.
\<close>

datatype error = ValueError | IndexError | AttributeError | ZeroDivisionError

text \<open>
  Modelled from the spec: \<^verbatim>\<open>engine.game_object.Vector2\<close> is not among the sources.
  The spec calls it a value type for integer coordinates; it is a pair of integers,
  \<open>+\<close> adds componentwise, and equality and hashing are by value (the sources test
  \<^verbatim>\<open>position in free_space\<close> and \<^verbatim>\<open>position == cherry.position\<close>).
\<close>

type_synonym Vector2 = "int \<times> int"

definition vadd :: "Vector2 \<Rightarrow> Vector2 \<Rightarrow> Vector2" where
  "vadd a b = (fst a + fst b, snd a + snd b)"

text \<open>
  A stream of raw draws stands for the state of Python's process-wide \<^verbatim>\<open>random\<close>
  generator: a draw reads the first element and leaves the rest.
\<close>

type_synonym tape = "nat \<Rightarrow> nat"

record SnakeHead =
  h_position :: Vector2
  h_direction :: Vector2
  h_length :: int

record SnakePiece =
  p_position :: Vector2
  p_age :: int

record Cherry =
  c_position :: Vector2

text \<open>
  One game owns one Level, so the Level's attributes (\<open>free_space\<close>, \<open>head\<close>,
  \<open>cherry\<close>) are fields of the game state, next to what the sources read from the
  game object: the live SnakePiece objects of \<^verbatim>\<open>game.game_objects\<close> (in creation
  order), \<^verbatim>\<open>controller.direction\<close>, \<^verbatim>\<open>should_exit\<close>, and the generator that
  \<^verbatim>\<open>cherry_position_lottery\<close> draws from.
\<close>

record Game =
  free_space :: "Vector2 set"
  head :: SnakeHead
  cherry :: Cherry
  pieces :: "SnakePiece list"
  controller_direction :: Vector2
  should_exit :: bool
  rng :: tape

text \<open>
  A raise inside the simulation leaves the objects as they were mutated up to the raise:
  the left summand carries the error and the game at that moment.
\<close>

type_synonym 'a raising = "(error \<times> Game) + 'a"

section \<open>Level: the occupancy tracker\<close>

definition occupy_space :: "Vector2 \<Rightarrow> Game \<Rightarrow> Game" where
  "occupy_space position g =
     (if position \<in> free_space g then g\<lparr>free_space := free_space g - {position}\<rparr> else g)"

definition unoccupy_space :: "Vector2 \<Rightarrow> Game \<Rightarrow> Game" where
  "unoccupy_space position g =
     (if position \<notin> free_space g then g\<lparr>free_space := insert position (free_space g)\<rparr> else g)"

text \<open>
  \<^verbatim>\<open>random.choice(list(self.free_space))\<close>: the iteration order of a Python set is
  not fixed by the language; it is taken to be the ascending lexicographic order. The
  index is the next raw draw reduced modulo the length, so every element can be drawn.
  \<^verbatim>\<open>random.choice\<close> raises IndexError on an empty sequence.
\<close>

definition cherry_position_lottery :: "Vector2 set \<Rightarrow> tape \<Rightarrow> error + (Vector2 \<times> tape)" where
  "cherry_position_lottery free r =
     (let xs = sorted_list_of_set free in
      if xs = [] then Inl IndexError
      else Inr (xs ! (r 0 mod length xs), (\<lambda>i. r (Suc i))))"

text \<open>
  Modelled from the spec: \<^verbatim>\<open>GameObject.instantiate\<close> and \<^verbatim>\<open>GameObject.destroy\<close>
  are not among the sources. Instantiating runs the class's \<^verbatim>\<open>init\<close> with the given
  arguments and makes the object live; destroying removes it from the live objects.
  \<^verbatim>\<open>Cherry.init\<close> only stores its arguments.
\<close>

definition create_cherry :: "Vector2 set \<Rightarrow> tape \<Rightarrow> error + (Cherry \<times> tape)" where
  "create_cherry free r =
     (case cherry_position_lottery free r of
        Inl e \<Rightarrow> Inl e
      | Inr (position, r') \<Rightarrow> Inr (\<lparr>c_position = position\<rparr>, r'))"

definition Level_on_cherry_eaten :: "Game \<Rightarrow> Game raising" where
  "Level_on_cherry_eaten g =
     (case create_cherry (free_space g) (rng g) of
        Inl e \<Rightarrow> Inl (e, g)
      | Inr (c, r') \<Rightarrow> Inr (g\<lparr>cherry := c, rng := r'\<rparr>))"

definition Cherry_on_being_eaten :: "Game \<Rightarrow> Game raising" where
  "Cherry_on_being_eaten g = Level_on_cherry_eaten g"

section \<open>SnakeHead\<close>

definition SnakeHead_init :: SnakeHead where
  "SnakeHead_init = \<lparr>h_position = (0, 0), h_direction = (1, 0), h_length = 3\<rparr>"

definition update_input :: "Game \<Rightarrow> Game" where
  "update_input g = g\<lparr>head := (head g)\<lparr>h_direction := controller_direction g\<rparr>\<rparr>"

definition SnakeHead_on_cherry_eaten :: "Game \<Rightarrow> Game raising" where
  "SnakeHead_on_cherry_eaten g =
     (case Cherry_on_being_eaten g of
        Inl e \<Rightarrow> Inl e
      | Inr g' \<Rightarrow> Inr (g'\<lparr>head := (head g')\<lparr>h_length := h_length (head g') + 1\<rparr>\<rparr>))"

definition on_collision :: "Game \<Rightarrow> Game" where
  "on_collision g = g"

text \<open>\<^verbatim>\<open>SnakePiece.init\<close>: age 0, and the piece occupies its cell.\<close>

definition SnakePiece_init :: "Vector2 \<Rightarrow> Game \<Rightarrow> Game" where
  "SnakePiece_init position g =
     (let g' = occupy_space position g
      in g'\<lparr>pieces := pieces g' @ [\<lparr>p_position = position, p_age = 0\<rparr>]\<rparr>)"

definition wrap_position :: "nat \<times> nat \<Rightarrow> Vector2 \<Rightarrow> Vector2" where
  "wrap_position PLAY_AREA p =
     (let x = (if fst p \<ge> int (fst PLAY_AREA) then 0 else fst p);
          y = (if snd p \<ge> int (snd PLAY_AREA) then 0 else snd p)
      in (x, y))"

text \<open>
  \<^verbatim>\<open>SnakeHead.update\<close>. The constant \<^verbatim>\<open>PLAY_AREA\<close> (module \<^verbatim>\<open>constants\<close>,
  not among the sources) is a parameter. The method calls \<^verbatim>\<open>self.on_collision()\<close>; the
  body of the update is given for any handler, and the class's own update is the body with
  the class's handler.
\<close>

definition SnakeHead_update_with :: "(Game \<Rightarrow> Game) \<Rightarrow> nat \<times> nat \<Rightarrow> Game \<Rightarrow> Game raising" where
  "SnakeHead_update_with handler PLAY_AREA g =
     (let g1 = unoccupy_space (h_position (head g)) g;
          old_pos = h_position (head g1);
          g2 = g1\<lparr>head := (head g1)\<lparr>h_position := vadd old_pos (h_direction (head g1))\<rparr>\<rparr>;
          g3 = (if h_position (head g2) \<notin> free_space g2 then handler g2 else g2);
          g4 = occupy_space (h_position (head g3)) g3
      in case (if h_position (head g4) = c_position (cherry g4)
               then SnakeHead_on_cherry_eaten g4 else Inr g4) of
           Inl e \<Rightarrow> Inl e
         | Inr g5 \<Rightarrow>
             (let g6 = SnakePiece_init old_pos g5
              in Inr (g6\<lparr>head := (head g6)\<lparr>h_position :=
                        wrap_position PLAY_AREA (h_position (head g6))\<rparr>\<rparr>)))"

definition SnakeHead_update :: "nat \<times> nat \<Rightarrow> Game \<Rightarrow> Game raising" where
  "SnakeHead_update PLAY_AREA g = SnakeHead_update_with on_collision PLAY_AREA g"

section \<open>SnakePiece\<close>

text \<open>
  \<^verbatim>\<open>SnakePiece.update\<close> on one live piece: the aged piece, or \<open>None\<close> when it
  destroyed itself, and the game with the cell released in that case.
\<close>

definition SnakePiece_update :: "SnakePiece \<Rightarrow> Game \<Rightarrow> SnakePiece option \<times> Game" where
  "SnakePiece_update p g =
     (let p' = p\<lparr>p_age := p_age p + 1\<rparr>
      in if h_length (head g) - p_age p' \<le> 0
         then (None, unoccupy_space (p_position p') g)
         else (Some p', g))"

text \<open>
  \<^verbatim>\<open>Level.init\<close>: every cell of the play area is free, the head is created (its
  \<^verbatim>\<open>init\<close> occupies nothing), then the first cherry. The arguments are
  \<^verbatim>\<open>PLAY_AREA\<close> and the generator's state; the controller starts with the zero
  direction and the exit flag unset.
\<close>

definition Level_init :: "nat \<times> nat \<Rightarrow> tape \<Rightarrow> error + Game" where
  "Level_init PLAY_AREA r =
     (let free = set (concat (map (\<lambda>x. map (\<lambda>y. (int x, int y)) [0..<snd PLAY_AREA])
                                  [0..<fst PLAY_AREA]))
      in case create_cherry free r of
           Inl e \<Rightarrow> Inl e
         | Inr (c, r') \<Rightarrow>
             Inr \<lparr>free_space = free, head = SnakeHead_init, cherry = c, pieces = [],
                  controller_direction = (0, 0), should_exit = False, rng = r'\<rparr>)"

section \<open>The game classes\<close>

text \<open>
  \<^verbatim>\<open>SnakeGame\<close> and \<^verbatim>\<open>SnakeHeadlessGame\<close> (module \<^verbatim>\<open>snake.snake\<close>) and the
  engine behind them are not among the sources. The environment only constructs a game
  from a random seed, calls \<^verbatim>\<open>_init_game\<close>, \<^verbatim>\<open>_run_step\<close> and
  \<^verbatim>\<open>_extrastep\<close> on it; a game class is a parameter holding these.
\<close>

record game_class =
  new_game :: "nat \<Rightarrow> error + Game"
  run_step :: "Game \<Rightarrow> Game raising"
  extrastep :: "Game \<Rightarrow> Game raising"

fun update_pieces :: "SnakePiece list \<Rightarrow> Game \<Rightarrow> SnakePiece list \<times> Game" where
  "update_pieces [] g = ([], g)"
| "update_pieces (p # ps) g =
     (case SnakePiece_update p g of
        (r, g') \<Rightarrow>
          (case update_pieces ps g' of
             (rs, g'') \<Rightarrow> ((case r of None \<Rightarrow> [] | Some p' \<Rightarrow> [p']) @ rs, g'')))"

text \<open>
  Modelled from the spec: one tick of the engine (\<^verbatim>\<open>_run_step\<close>), following the
  spec's data flow: the head takes the controller's direction and moves, then the pieces
  that were live when the tick began age, in creation order; the piece spawned in this
  tick is not aged in it.
\<close>

definition Snake_run_step :: "nat \<times> nat \<Rightarrow> Game \<Rightarrow> Game raising" where
  "Snake_run_step PLAY_AREA g =
     (let n = length (pieces g) in
      case SnakeHead_update PLAY_AREA (update_input g) of
        Inl e \<Rightarrow> Inl e
      | Inr g' \<Rightarrow>
          (case update_pieces (take n (pieces g')) g' of
             (live, g'') \<Rightarrow> Inr (g''\<lparr>pieces := live @ drop n (pieces g')\<rparr>)))"

text \<open>
  A run of ticks: before each tick the controller holds the next direction of the list;
  a raise ends the run.
\<close>

fun ticks :: "nat \<times> nat \<Rightarrow> Game \<Rightarrow> Vector2 list \<Rightarrow> Game raising" where
  "ticks PLAY_AREA g [] = Inr g"
| "ticks PLAY_AREA g (d # ds) =
     (case Snake_run_step PLAY_AREA (g\<lparr>controller_direction := d\<rparr>) of
        Inl e \<Rightarrow> Inl e
      | Inr g' \<Rightarrow> ticks PLAY_AREA g' ds)"

text \<open>
  Modelled from the spec: constructing a game with \<^verbatim>\<open>random_seed\<close> seeds the
  generator the cherry lottery draws from (\<open>py_stream\<close> gives the stream of a seed), and
  \<^verbatim>\<open>_init_game\<close> creates the Level. Rendering is outside the model, so
  \<^verbatim>\<open>_extrastep\<close> changes nothing and both game classes are this one.
\<close>

definition Snake_game_class :: "nat \<times> nat \<Rightarrow> (nat \<Rightarrow> tape) \<Rightarrow> game_class" where
  "Snake_game_class PLAY_AREA py_stream =
     \<lparr>new_game = (\<lambda>random_seed. Level_init PLAY_AREA (py_stream random_seed)),
      run_step = Snake_run_step PLAY_AREA,
      extrastep = Inr\<rparr>"

section \<open>SnakeGameState and SnakeEnv\<close>

text \<open>
  \<^verbatim>\<open>np.random.RandomState(seed)\<close>: the generator is determined by its seed and the
  number of draws made so far; the outputs of the generator are a parameter \<open>mt\<close>
  (seed and draw number to raw value). numpy accepts a seed from 0 to \<open>2^32 - 1\<close> and
  raises ValueError otherwise.
\<close>

datatype RandomState = RandomState (rs_seed: int) (rs_draws: nat)

definition new_RandomState :: "int \<Rightarrow> error + RandomState" where
  "new_RandomState s = (if 0 \<le> s \<and> s < 2 ^ 32 then Inr (RandomState s 0) else Inl ValueError)"

definition randint :: "(int \<Rightarrow> nat \<Rightarrow> nat) \<Rightarrow> RandomState \<Rightarrow> nat \<Rightarrow> nat \<times> RandomState" where
  "randint mt r high = (mt (rs_seed r) (rs_draws r) mod high, RandomState (rs_seed r) (Suc (rs_draws r)))"

record SnakeGameState =
  width :: nat
  height :: nat
  headless :: bool
  loop :: bool
  game_cls :: game_class
  game :: "Game option"
  random :: RandomState

definition seed :: "int option \<Rightarrow> SnakeGameState \<Rightarrow> error + SnakeGameState" where
  "seed s st =
     (let s' = (case s of None \<Rightarrow> 1234 | Some v \<Rightarrow> if v \<noteq> 0 then v else 1234)
      in case new_RandomState s' of
           Inl e \<Rightarrow> Inl e
         | Inr r \<Rightarrow> Inr (st\<lparr>random := r\<rparr>))"

definition SnakeGameState_init ::
  "nat \<times> nat \<Rightarrow> game_class \<Rightarrow> game_class \<Rightarrow> nat \<Rightarrow> nat \<Rightarrow> bool \<Rightarrow> bool \<Rightarrow> error + SnakeGameState" where
  "SnakeGameState_init PLAY_AREA SnakeHeadlessGame SnakeGame w h hl lp =
     (if (h, w) \<noteq> PLAY_AREA then Inl ValueError
      else seed None
             \<lparr>width = w, height = h, headless = hl, loop = lp,
              game_cls = (if hl then SnakeHeadlessGame else SnakeGame),
              game = None, random = RandomState 0 0\<rparr>)"

definition reset :: "(int \<Rightarrow> nat \<Rightarrow> nat) \<Rightarrow> SnakeGameState \<Rightarrow> error + SnakeGameState" where
  "reset mt st =
     (case randint mt (random st) 99999 of
        (random_seed, r') \<Rightarrow>
          (case new_game (game_cls st) random_seed of
             Inl e \<Rightarrow> Inl e
           | Inr g \<Rightarrow> Inr (st\<lparr>random := r', game := Some g\<rparr>)))"

definition step :: "SnakeGameState \<Rightarrow> Vector2 \<Rightarrow> (error + int) \<times> SnakeGameState" where
  "step st direction =
     (case game st of
        None \<Rightarrow> (Inl AttributeError, st)
      | Some g0 \<Rightarrow>
          (let g = g0\<lparr>controller_direction := direction\<rparr>;
               last_lenght = h_length (head g)
           in case run_step (game_cls st) g of
                Inl (e, g') \<Rightarrow> (Inl e, st\<lparr>game := Some g'\<rparr>)
              | Inr g1 \<Rightarrow>
                  (case (if \<not> headless st then extrastep (game_cls st) g1 else Inr g1) of
                     Inl (e, g') \<Rightarrow> (Inl e, st\<lparr>game := Some g'\<rparr>)
                   | Inr g2 \<Rightarrow>
                       ((if h_length (head g2) > last_lenght then Inr 1
                         else if should_exit g2 then Inr (- 1)
                         else Inr 0),
                        st\<lparr>game := Some g2\<rparr>))))"

subsection \<open>The observation tensor\<close>

text \<open>
  A numpy array of shape \<open>(width, height, 4)\<close> is a list of rows of cells of channels.
  Its entries are floats holding small whole numbers, modelled as integers. Indexing
  with a negative index counts from the end, and an index outside \<open>[-n, n)\<close> raises
  IndexError.
\<close>

type_synonym tensor = "int list list list"

definition zeros :: "nat \<Rightarrow> nat \<Rightarrow> nat \<Rightarrow> tensor" where
  "zeros a b c = replicate a (replicate b (replicate c 0))"

definition np_index :: "nat \<Rightarrow> int \<Rightarrow> nat option" where
  "np_index n i =
     (if 0 \<le> i \<and> i < int n then Some (nat i)
      else if - int n \<le> i \<and> i < 0 then Some (nat (i + int n))
      else None)"

definition set_item :: "tensor \<Rightarrow> Vector2 \<Rightarrow> nat \<Rightarrow> int \<Rightarrow> error + tensor" where
  "set_item features p c v =
     (case np_index (length features) (fst p) of
        None \<Rightarrow> Inl IndexError
      | Some i \<Rightarrow>
          (case np_index (length (features ! i)) (snd p) of
             None \<Rightarrow> Inl IndexError
           | Some j \<Rightarrow>
               (if c < length (features ! i ! j)
                then Inr (features[i := (features ! i)[j := (features ! i ! j)[c := v]]])
                else Inl IndexError)))"

text \<open>
  The loop over \<^verbatim>\<open>self.pieces\<close> (a Python set of objects, iterated here in creation
  order): a later piece on the same cell overwrites an earlier one.
\<close>

fun encode_pieces :: "SnakePiece list \<Rightarrow> tensor \<Rightarrow> error + tensor" where
  "encode_pieces [] features = Inr features"
| "encode_pieces (piece # ps) features =
     (case set_item features (p_position piece) 0 (p_age piece + 1) of
        Inl e \<Rightarrow> Inl e
      | Inr features' \<Rightarrow> encode_pieces ps features')"

definition in_bounds :: "nat \<Rightarrow> nat \<Rightarrow> Vector2 \<Rightarrow> bool" where
  "in_bounds w h p \<longleftrightarrow> fst p < int w \<and> fst p \<ge> 0 \<and> snd p < int h \<and> snd p \<ge> 0"

definition encode :: "SnakeGameState \<Rightarrow> error + tensor" where
  "encode st =
     (case game st of
        None \<Rightarrow> Inl AttributeError
      | Some g \<Rightarrow>
          (case encode_pieces (pieces g) (zeros (width st) (height st) 4) of
             Inl e \<Rightarrow> Inl e
           | Inr f1 \<Rightarrow>
               (case (if in_bounds (width st) (height st) (h_position (head g))
                      then set_item f1 (h_position (head g)) 1 1 else Inr f1) of
                  Inl e \<Rightarrow> Inl e
                | Inr f2 \<Rightarrow>
                    (let nxt = vadd (h_position (head g)) (h_direction (head g))
                     in case (if loop st
                              then (if width st = 0 \<or> height st = 0 then Inl ZeroDivisionError
                                    else Inr (fst nxt mod int (width st), snd nxt mod int (height st)))
                              else Inr nxt) of
                          Inl e \<Rightarrow> Inl e
                        | Inr nxt' \<Rightarrow>
                            (case (if in_bounds (width st) (height st) nxt'
                                   then set_item f2 nxt' 2 1 else Inr f2) of
                               Inl e \<Rightarrow> Inl e
                             | Inr f3 \<Rightarrow> set_item f3 (c_position (cherry g)) 3 1)))))"

subsection \<open>SnakeEnv\<close>

text \<open>
  \<^verbatim>\<open>SnakeEnv\<close> wraps one SnakeGameState; its other attributes are constants. A call
  returns its outcome and the state it leaves behind.
\<close>

definition SnakeEnv_init ::
  "nat \<times> nat \<Rightarrow> game_class \<Rightarrow> game_class \<Rightarrow> nat \<Rightarrow> nat \<Rightarrow> bool \<Rightarrow> error + SnakeGameState" where
  "SnakeEnv_init PLAY_AREA SnakeHeadlessGame SnakeGame h w hl =
     (case SnakeGameState_init PLAY_AREA SnakeHeadlessGame SnakeGame w h hl False of
        Inl e \<Rightarrow> Inl e
      | Inr st \<Rightarrow> seed None st)"


definition SnakeEnv_reset ::
  "(int \<Rightarrow> nat \<Rightarrow> nat) \<Rightarrow> SnakeGameState \<Rightarrow> error + (tensor \<times> SnakeGameState)" where
  "SnakeEnv_reset mt st =
     (case reset mt st of
        Inl e \<Rightarrow> Inl e
      | Inr st' \<Rightarrow> (case encode st' of Inl e \<Rightarrow> Inl e | Inr observation \<Rightarrow> Inr (observation, st')))"

definition SnakeEnv_step ::
  "SnakeGameState \<Rightarrow> int \<Rightarrow> (error + (tensor \<times> int \<times> bool)) \<times> SnakeGameState" where
  "SnakeEnv_step st action =
     (let direction = (0, 0) in
      case (if action = 0 then Inr (1, snd direction)
            else if action = 1 then Inr (- 1, snd direction)
            else if action = 2 then Inr (fst direction, 1)
            else if action = 3 then Inr (fst direction, - 1)
            else Inl ValueError) of
        Inl e \<Rightarrow> (Inl e, st)
      | Inr direction \<Rightarrow>
          (case step st direction of
             (Inl e, st') \<Rightarrow> (Inl e, st')
           | (Inr reward, st') \<Rightarrow>
               (case encode st' of
                  Inl e \<Rightarrow> (Inl e, st')
                | Inr observation \<Rightarrow> (Inr (observation, reward, reward < 0), st'))))"



subsection \<open>Environments of one process\<close>







section \<open>A concrete environment\<close>

text \<open>
  A 4 by 4 headless environment whose cherry lottery always draws the raw value \<open>d\<close>,
  as it stands right after \<^verbatim>\<open>reset()\<close> with the cherry on cell \<open>c\<close>.
\<close>

definition example_class :: "nat \<Rightarrow> game_class" where
  "example_class d = Snake_game_class (4, 4) (\<lambda>random_seed i. d)"

definition example_game :: "nat \<Rightarrow> Vector2 \<Rightarrow> Game" where
  "example_game d c =
     \<lparr>free_space = set (concat (map (\<lambda>x. map (\<lambda>y. (int x, int y)) [0..<4]) [0..<4])),
      head = SnakeHead_init, cherry = \<lparr>c_position = c\<rparr>, pieces = [],
      controller_direction = (0, 0), should_exit = False, rng = (\<lambda>i. d)\<rparr>"

definition example_state :: "nat \<Rightarrow> Vector2 \<Rightarrow> SnakeGameState" where
  "example_state d c =
     \<lparr>width = 4, height = 4, headless = True, loop = False, game_cls = example_class d,
      game = Some (example_game d c), random = RandomState 1234 1\<rparr>"




section \<open>Properties of the environment adapter\<close>

lemma grid_4_4:
  "sorted_list_of_set (set (concat (map (\<lambda>x. map (\<lambda>y. (int x, int y)) [0..<4]) [0..<4]))) =
     [(0, 0), (0, 1), (0, 2), (0, 3), (1, 0), (1, 1), (1, 2), (1, 3),
      (2, 0), (2, 1), (2, 2), (2, 3), (3, 0), (3, 1), (3, 2), (3, 3)]"
  by code_simp


text \<open>The encoding reads the dimensions, the loop flag, the pieces, the head and the cherry.\<close>

lemma encode_cong:
  assumes "width st = width st'" "height st = height st'" "loop st = loop st'"
    and "game st \<noteq> None" "game st' \<noteq> None"
    and "pieces (the (game st)) = pieces (the (game st'))"
    and "head (the (game st)) = head (the (game st'))"
    and "cherry (the (game st)) = cherry (the (game st'))"
  shows "encode st = encode st'"
proof -
  from assms obtain g g' where "game st = Some g" "game st' = Some g'"
    by auto
  with assms show ?thesis
    by (simp add: encode_def cong del: sum.case_cong_weak if_weak_cong)
qed

lemma zeros_4_4_4:
  "zeros 4 4 4 = [[[0, 0, 0, 0], [0, 0, 0, 0], [0, 0, 0, 0], [0, 0, 0, 0]],
                  [[0, 0, 0, 0], [0, 0, 0, 0], [0, 0, 0, 0], [0, 0, 0, 0]],
                  [[0, 0, 0, 0], [0, 0, 0, 0], [0, 0, 0, 0], [0, 0, 0, 0]],
                  [[0, 0, 0, 0], [0, 0, 0, 0], [0, 0, 0, 0], [0, 0, 0, 0]]]"
  by (simp add: zeros_def eval_nat_numeral)

text \<open>
  One step to the right from the reset state with the cherry on \<open>(1, 0)\<close>: the head eats
  it, the new cherry is drawn on \<open>(1, 1)\<close>, and the reward is 1.
\<close>

lemma example_step_eats:
  "fst (SnakeEnv_step (example_state 4 (1, 0)) 0) =
      Inr ([[[1, 0, 0, 0], [0, 0, 0, 0], [0, 0, 0, 0], [0, 0, 0, 0]],
            [[0, 1, 0, 0], [0, 0, 0, 1], [0, 0, 0, 0], [0, 0, 0, 0]],
            [[0, 0, 1, 0], [0, 0, 0, 0], [0, 0, 0, 0], [0, 0, 0, 0]],
            [[0, 0, 0, 0], [0, 0, 0, 0], [0, 0, 0, 0], [0, 0, 0, 0]]], 1, False)"
proof -
  define S where "S = snd (step (example_state 4 (1, 0)) (1, 0))"
  define E where "E = (example_state 4 (1, 0))\<lparr>game := Some ((example_game 4 (1, 0))
      \<lparr>head := \<lparr>h_position = (1, 0), h_direction = (1, 0), h_length = 4\<rparr>,
       cherry := \<lparr>c_position = (1, 1)\<rparr>,
       pieces := [\<lparr>p_position = (0, 0), p_age = 0\<rparr>]\<rparr>)\<rparr>"
  have r: "fst (step (example_state 4 (1, 0)) (1, 0)) = Inr 1"
    by code_simp
  have s: "width S = 4" "height S = 4" "loop S = False" "game S \<noteq> None"
    "pieces (the (game S)) = [\<lparr>p_position = (0, 0), p_age = 0\<rparr>]"
    "head (the (game S)) = \<lparr>h_position = (1, 0), h_direction = (1, 0), h_length = 4\<rparr>"
    "cherry (the (game S)) = \<lparr>c_position = (1, 1)\<rparr>"
    unfolding S_def by code_simp+
  have "encode S = encode E"
    by (rule encode_cong) (simp_all add: s E_def example_state_def)
  also have "encode E =
      Inr [[[1, 0, 0, 0], [0, 0, 0, 0], [0, 0, 0, 0], [0, 0, 0, 0]],
           [[0, 1, 0, 0], [0, 0, 0, 1], [0, 0, 0, 0], [0, 0, 0, 0]],
           [[0, 0, 1, 0], [0, 0, 0, 0], [0, 0, 0, 0], [0, 0, 0, 0]],
           [[0, 0, 0, 0], [0, 0, 0, 0], [0, 0, 0, 0], [0, 0, 0, 0]]]"
    by (simp add: encode_def E_def example_state_def example_game_def zeros_4_4_4
        in_bounds_def set_item_def np_index_def vadd_def)
  finally have e: "encode S =
      Inr [[[1, 0, 0, 0], [0, 0, 0, 0], [0, 0, 0, 0], [0, 0, 0, 0]],
           [[0, 1, 0, 0], [0, 0, 0, 1], [0, 0, 0, 0], [0, 0, 0, 0]],
           [[0, 0, 1, 0], [0, 0, 0, 0], [0, 0, 0, 0], [0, 0, 0, 0]],
           [[0, 0, 0, 0], [0, 0, 0, 0], [0, 0, 0, 0], [0, 0, 0, 0]]]" .
  have "step (example_state 4 (1, 0)) (1, 0) = (Inr 1, S)"
    using r unfolding S_def by (simp add: prod_eq_iff)
  then show ?thesis
    by (simp add: SnakeEnv_step_def e)
qed

text \<open>
  C10. \<^verbatim>\<open>seed(0)\<close> is \<^verbatim>\<open>seed()\<close>: the argument 0 is falsy, so the default 1234
  is substituted; the generator is the one of seed 1234, not the one of seed 0.
\<close>

theorem seed_zero_is_default:
  "seed (Some 0) st = seed None st \<and>
   seed (Some 0) st = Inr (st\<lparr>random := RandomState 1234 0\<rparr>) \<and>
   seed (Some 0) st \<noteq> Inr (st\<lparr>random := RandomState 0 0\<rparr>)"
proof -
  have "random (st\<lparr>random := RandomState 1234 0\<rparr>) \<noteq> random (st\<lparr>random := RandomState 0 0\<rparr>)"
    by simp
  then have "st\<lparr>random := RandomState 1234 0\<rparr> \<noteq> st\<lparr>random := RandomState 0 0\<rparr>"
    by metis
  then show ?thesis
    by (simp add: seed_def new_RandomState_def)
qed

text \<open>
  C6. \<^verbatim>\<open>SnakeEnv.step\<close> passes direction \<open>(1, 0)\<close> to the state's \<^verbatim>\<open>step\<close> for
  action 0, \<open>(-1, 0)\<close> for 1, \<open>(0, 1)\<close> for 2 and \<open>(0, -1)\<close> for 3, and goes on with
  the encoding; for any other action it raises ValueError and leaves the state, and so
  the simulation, as it was.
\<close>

theorem step_action_mapping:
  "(let continue = (\<lambda>r. case r of
        (Inl e, st') \<Rightarrow> (Inl e, st')
      | (Inr reward, st') \<Rightarrow>
          (case encode st' of
             Inl e \<Rightarrow> (Inl e, st')
           | Inr observation \<Rightarrow> (Inr (observation, reward, reward < 0), st')))
    in SnakeEnv_step st 0 = continue (step st (1, 0)) \<and>
       SnakeEnv_step st 1 = continue (step st (- 1, 0)) \<and>
       SnakeEnv_step st 2 = continue (step st (0, 1)) \<and>
       SnakeEnv_step st 3 = continue (step st (0, - 1))) \<and>
   (\<forall>action. action \<notin> {0, 1, 2, 3} \<longrightarrow> SnakeEnv_step st action = (Inl ValueError, st))"
  by (simp add: SnakeEnv_step_def Let_def)

theorem step_action_mapping_witness:
  "(7::int) \<notin> {0, 1, 2, 3} \<and>
   SnakeEnv_step (example_state 4 (1, 0)) 7 = (Inl ValueError, example_state 4 (1, 0)) \<and>
   SnakeEnv_step (example_state 4 (1, 0)) (- 1) = (Inl ValueError, example_state 4 (1, 0))"
proof -
  have "\<forall>action. action \<notin> {0, 1, 2, 3} \<longrightarrow>
      SnakeEnv_step (example_state 4 (1, 0)) action = (Inl ValueError, example_state 4 (1, 0))"
    using step_action_mapping [of "example_state 4 (1, 0)"] by (rule conjunct2)
  then have
    "(7::int) \<notin> {0, 1, 2, 3} \<longrightarrow>
       SnakeEnv_step (example_state 4 (1, 0)) 7 = (Inl ValueError, example_state 4 (1, 0))"
    and "(- 1::int) \<notin> {0, 1, 2, 3} \<longrightarrow>
       SnakeEnv_step (example_state 4 (1, 0)) (- 1) = (Inl ValueError, example_state 4 (1, 0))"
    by blast+
  then show ?thesis by simp
qed

lemma step_cases:
  assumes "step st d = (Inr reward, st')" and "game st = Some g"
  shows "\<exists>g'. st' = st\<lparr>game := Some g'\<rparr> \<and>
           reward = (if h_length (head g') > h_length (head g) then 1
                     else if should_exit g' then - 1 else 0)"
proof -
  let ?g = "g\<lparr>controller_direction := d\<rparr>"
  from assms obtain g1 where g1: "run_step (game_cls st) ?g = Inr g1"
    by (cases "run_step (game_cls st) ?g") (simp_all add: step_def Let_def split: prod.splits)
  let ?r = "if \<not> headless st then extrastep (game_cls st) g1 else Inr g1"
  from assms g1 obtain g2 where g2: "?r = Inr g2"
    by (cases ?r) (simp_all add: step_def Let_def split: prod.splits)
  from assms g1 g2 have "st' = st\<lparr>game := Some g2\<rparr>"
    and "reward = (if h_length (head g2) > h_length (head g) then 1
                     else if should_exit g2 then - 1 else 0)"
    by (simp_all add: step_def Let_def split: if_splits)
  then show ?thesis
    by blast
qed

lemma SnakeEnv_step_cases:
  assumes "SnakeEnv_step st action = (Inr (observation, reward, done), st')"
  shows "\<exists>d. step st d = (Inr reward, st') \<and> done = (reward < 0)"
proof -
  let ?c = "(if action = 0 then Inr (1, 0)
            else if action = 1 then Inr (- 1, 0)
            else if action = 2 then Inr (0, 1)
            else if action = 3 then Inr (0, - 1)
            else Inl ValueError) :: error + Vector2"
  have eq: "SnakeEnv_step st action =
      (case ?c of
         Inl e \<Rightarrow> (Inl e, st)
       | Inr direction \<Rightarrow>
           (case step st direction of
              (Inl e, st') \<Rightarrow> (Inl e, st')
            | (Inr reward, st') \<Rightarrow>
                (case encode st' of
                   Inl e \<Rightarrow> (Inl e, st')
                 | Inr observation \<Rightarrow> (Inr (observation, reward, reward < 0), st'))))"
    by (simp add: SnakeEnv_step_def)
  obtain d where d: "?c = Inr d"
  proof (cases ?c)
    case (Inl e)
    with assms eq show ?thesis by simp
  next
    case (Inr d)
    then show ?thesis by (rule that)
  qed
  obtain r s where rs: "step st d = (r, s)"
    by (cases "step st d")
  from assms eq d rs obtain rw where rw: "r = Inr rw"
    by (cases r) simp_all
  from assms eq d rs rw obtain ob where ob: "encode s = Inr ob"
    by (cases "encode s") simp_all
  from eq d rs rw ob have "SnakeEnv_step st action = (Inr (ob, rw, rw < 0), s)"
    by simp
  with assms [symmetric]
  have "(Inr (observation, reward, done) :: error + _, st') = (Inr (ob, rw, rw < 0), s)"
    by (rule trans)
  then have "st' = s" "reward = rw" "done = (rw < 0)"
    by simp_all
  with rs rw show ?thesis
    by (intro exI [of _ d]) simp
qed

text \<open>
  C2. Whenever \<^verbatim>\<open>SnakeEnv.step\<close> returns, the reward is 1 if the head is longer
  after the tick than before it, else -1 if the game's exit flag is set, else 0, and the
  done flag is \<open>reward < 0\<close>. This holds for every game class.
\<close>

theorem step_reward:
  assumes "game st = Some g"
    and "SnakeEnv_step st action = (Inr (observation, reward, done), st')"
  shows "\<exists>g'. game st' = Some g' \<and>
           reward = (if h_length (head g') > h_length (head g) then 1
                     else if should_exit g' then - 1 else 0) \<and>
           done = (reward < 0)"
proof -
  from SnakeEnv_step_cases [OF assms(2)]
  obtain d where s: "step st d = (Inr reward, st')" and d: "done = (reward < 0)"
    by blast
  from step_cases [OF s assms(1)] obtain g' where "st' = st\<lparr>game := Some g'\<rparr>"
    and "reward = (if h_length (head g') > h_length (head g) then 1
                     else if should_exit g' then - 1 else 0)"
    by blast
  with d show ?thesis
    by simp
qed

theorem step_reward_witness:
  "\<exists>g'. game (snd (SnakeEnv_step (example_state 4 (1, 0)) 0)) = Some g' \<and>
     (1::int) = (if h_length (head g') > h_length (head (example_game 4 (1, 0))) then 1
                 else if should_exit g' then - 1 else 0) \<and>
     False = ((1::int) < 0)"
proof -
  have g: "game (example_state 4 (1, 0)) = Some (example_game 4 (1, 0))"
    by (simp add: example_state_def)
  have "SnakeEnv_step (example_state 4 (1, 0)) 0 =
      (Inr ([[[1, 0, 0, 0], [0, 0, 0, 0], [0, 0, 0, 0], [0, 0, 0, 0]],
             [[0, 1, 0, 0], [0, 0, 0, 1], [0, 0, 0, 0], [0, 0, 0, 0]],
             [[0, 0, 1, 0], [0, 0, 0, 0], [0, 0, 0, 0], [0, 0, 0, 0]],
             [[0, 0, 0, 0], [0, 0, 0, 0], [0, 0, 0, 0], [0, 0, 0, 0]]], 1, False),
       snd (SnakeEnv_step (example_state 4 (1, 0)) 0))"
    using example_step_eats by (simp add: prod_eq_iff)
  from step_reward [OF g this] show ?thesis .
qed

section \<open>Properties of the level and the head\<close>

lemma occupy_space_eq: "occupy_space p g = g\<lparr>free_space := free_space g - {p}\<rparr>"
  by (simp add: occupy_space_def)

lemma unoccupy_space_eq: "unoccupy_space p g = g\<lparr>free_space := insert p (free_space g)\<rparr>"
  by (simp add: unoccupy_space_def insert_absorb)

lemma lottery_draws_member:
  assumes "finite free" and "free \<noteq> {}"
  shows "\<exists>p. cherry_position_lottery free r = Inr (p, \<lambda>i. r (Suc i)) \<and> p \<in> free"
proof -
  let ?xs = "sorted_list_of_set free"
  from assms have ne: "?xs \<noteq> []"
    by simp
  then have "0 < length ?xs"
    by (metis length_greater_0_conv)
  then have "r 0 mod length ?xs < length ?xs"
    by (rule mod_less_divisor)
  then have "?xs ! (r 0 mod length ?xs) \<in> set ?xs"
    by (rule nth_mem)
  with assms(1) have "?xs ! (r 0 mod length ?xs) \<in> free"
    by simp
  with ne show ?thesis
    by (simp add: cherry_position_lottery_def Let_def)
qed


lemma grid_cells:
  "set (concat (map (\<lambda>x. map (\<lambda>y. (int x, int y)) [0..<h]) [0..<w])) =
     {(x, y). 0 \<le> x \<and> x < int w \<and> 0 \<le> y \<and> y < int h}"
proof (rule set_eqI)
  fix c :: Vector2
  obtain x y where c: "c = (x, y)"
    by (cases c)
  show "c \<in> set (concat (map (\<lambda>x. map (\<lambda>y. (int x, int y)) [0..<h]) [0..<w])) \<longleftrightarrow>
        c \<in> {(x, y). 0 \<le> x \<and> x < int w \<and> 0 \<le> y \<and> y < int h}"
  proof
    assume "c \<in> set (concat (map (\<lambda>x. map (\<lambda>y. (int x, int y)) [0..<h]) [0..<w]))"
    with c show "c \<in> {(x, y). 0 \<le> x \<and> x < int w \<and> 0 \<le> y \<and> y < int h}"
      by auto
  next
    assume "c \<in> {(x, y). 0 \<le> x \<and> x < int w \<and> 0 \<le> y \<and> y < int h}"
    with c have xy: "0 \<le> x" "x < int w" "0 \<le> y" "y < int h"
      by simp_all
    then have "\<exists>a\<in>{0..<w}. x = int a"
      by (intro bexI [of _ "nat x"]) auto
    moreover from xy have "\<exists>b\<in>{0..<h}. y = int b"
      by (intro bexI [of _ "nat y"]) auto
    ultimately show "c \<in> set (concat (map (\<lambda>x. map (\<lambda>y. (int x, int y)) [0..<h]) [0..<w]))"
      using c by (simp add: image_iff)
  qed
qed

text \<open>
  C7. Spawning a cherry, when one is eaten (\<^verbatim>\<open>Level.on_cherry_eaten\<close>) and at
  \<^verbatim>\<open>Level.init\<close>, draws its cell from the free set and leaves the free set as it
  was: the drawn cell is still free afterwards. The free set is non-empty here; on an
  empty one the draw raises IndexError (lemma \<open>lottery_empty\<close>).
\<close>

theorem cherry_spawn_keeps_free_space:
  "(finite (free_space g) \<and> free_space g \<noteq> {} \<longrightarrow>
      (\<exists>g'. Level_on_cherry_eaten g = Inr g' \<and> free_space g' = free_space g \<and>
            c_position (cherry g') \<in> free_space g')) \<and>
   (0 < fst PLAY_AREA \<and> 0 < snd PLAY_AREA \<longrightarrow>
      (\<exists>g'. Level_init PLAY_AREA r = Inr g' \<and>
            free_space g' = {(x, y). 0 \<le> x \<and> x < int (fst PLAY_AREA) \<and>
                                     0 \<le> y \<and> y < int (snd PLAY_AREA)} \<and>
            c_position (cherry g') \<in> free_space g'))"
proof (intro conjI impI)
  assume "finite (free_space g) \<and> free_space g \<noteq> {}"
  then obtain p where "cherry_position_lottery (free_space g) (rng g) = Inr (p, \<lambda>i. rng g (Suc i))"
    and "p \<in> free_space g"
    using lottery_draws_member [of "free_space g" "rng g"] by blast
  then show "\<exists>g'. Level_on_cherry_eaten g = Inr g' \<and> free_space g' = free_space g \<and>
            c_position (cherry g') \<in> free_space g'"
    by (simp add: Level_on_cherry_eaten_def create_cherry_def)
next
  let ?free = "{(x, y). 0 \<le> x \<and> x < int (fst PLAY_AREA) \<and> 0 \<le> y \<and> y < int (snd PLAY_AREA)}"
  assume pos: "0 < fst PLAY_AREA \<and> 0 < snd PLAY_AREA"
  have eq: "set (concat (map (\<lambda>x. map (\<lambda>y. (int x, int y)) [0..<snd PLAY_AREA])
                                  [0..<fst PLAY_AREA])) = ?free"
    by (rule grid_cells)
  have "finite ?free"
    unfolding eq [symmetric] by (rule finite_set)
  moreover from pos have "(0, 0) \<in> ?free"
    by simp
  then have "?free \<noteq> {}"
    by blast
  ultimately obtain p where "cherry_position_lottery ?free r = Inr (p, \<lambda>i. r (Suc i))"
    and "p \<in> ?free"
    using lottery_draws_member [of ?free r] by blast
  then show "\<exists>g'. Level_init PLAY_AREA r = Inr g' \<and> free_space g' = ?free \<and>
            c_position (cherry g') \<in> free_space g'"
    unfolding Level_init_def eq by (simp add: create_cherry_def)
qed

theorem cherry_spawn_keeps_free_space_witness:
  "(finite (free_space (example_game 4 (1, 0))) \<and> free_space (example_game 4 (1, 0)) \<noteq> {}) \<and>
   (\<exists>g'. Level_on_cherry_eaten (example_game 4 (1, 0)) = Inr g' \<and>
         free_space g' = free_space (example_game 4 (1, 0)) \<and>
         c_position (cherry g') \<in> free_space g') \<and>
   (0 < fst (4 :: nat, 4 :: nat) \<and> 0 < snd (4 :: nat, 4 :: nat)) \<and>
   (\<exists>g'. Level_init (4, 4) (\<lambda>i. 4) = Inr g' \<and>
         free_space g' = {(x, y). 0 \<le> x \<and> x < int (fst (4 :: nat, 4 :: nat)) \<and>
                                  0 \<le> y \<and> y < int (snd (4 :: nat, 4 :: nat))} \<and>
         c_position (cherry g') \<in> free_space g')"
proof -
  have "(0, 0) \<in> free_space (example_game 4 (1, 0))"
    by code_simp
  then have "free_space (example_game 4 (1, 0)) \<noteq> {}"
    by blast
  moreover have "finite (free_space (example_game 4 (1, 0)))"
    by (simp add: example_game_def del: set_concat)
  ultimately
  have a: "finite (free_space (example_game 4 (1, 0))) \<and> free_space (example_game 4 (1, 0)) \<noteq> {}"
    by simp
  have b: "0 < fst (4 :: nat, 4 :: nat) \<and> 0 < snd (4 :: nat, 4 :: nat)"
    by simp
  from a b cherry_spawn_keeps_free_space [of "example_game 4 (1, 0)" "(4, 4)" "\<lambda>i. 4"]
  show ?thesis
    by blast
qed

lemma SnakePiece_init_eq:
  "SnakePiece_init p g =
     g\<lparr>free_space := free_space g - {p}, pieces := pieces g @ [\<lparr>p_position = p, p_age = 0\<rparr>]\<rparr>"
  by (simp add: SnakePiece_init_def occupy_space_eq)

lemma SnakeHead_update_with_eq:
  "SnakeHead_update_with handler PLAY_AREA g =
     (let p = h_position (head g);
          d = h_direction (head g);
          n = (fst p + fst d, snd p + snd d);
          g2 = g\<lparr>free_space := insert p (free_space g), head := (head g)\<lparr>h_position := n\<rparr>\<rparr>;
          g3 = (if n \<in> insert p (free_space g) then g2 else handler g2);
          q = h_position (head g3);
          F = free_space g3 - {q};
          ps = pieces g3 @ [\<lparr>p_position = p, p_age = 0\<rparr>];
          w = (if fst q \<ge> int (fst PLAY_AREA) then 0 else fst q,
               if snd q \<ge> int (snd PLAY_AREA) then 0 else snd q)
      in if q = c_position (cherry g3)
         then (case cherry_position_lottery F (rng g3) of
                 Inl e \<Rightarrow> Inl (e, g3\<lparr>free_space := F\<rparr>)
               | Inr (c, r') \<Rightarrow>
                   Inr (g3\<lparr>free_space := F - {p},
                          head := (head g3)\<lparr>h_position := w, h_length := h_length (head g3) + 1\<rparr>,
                          cherry := \<lparr>c_position = c\<rparr>, pieces := ps, rng := r'\<rparr>))
         else Inr (g3\<lparr>free_space := F - {p}, head := (head g3)\<lparr>h_position := w\<rparr>,
                     pieces := ps\<rparr>))"
proof -
  define p where "p = h_position (head g)"
  define d where "d = h_direction (head g)"
  define n where "n = (fst p + fst d, snd p + snd d)"
  define g2 where "g2 = g\<lparr>free_space := insert p (free_space g), head := (head g)\<lparr>h_position := n\<rparr>\<rparr>"
  define g3 where "g3 = (if n \<in> insert p (free_space g) then g2 else handler g2)"
  define q where "q = h_position (head g3)"
  define F where "F = free_space g3 - {q}"
  define g4 where "g4 = g3\<lparr>free_space := F\<rparr>"
  define a1 where "a1 = unoccupy_space (h_position (head g)) g"
  define a2 where "a2 = a1\<lparr>head := (head a1)\<lparr>h_position :=
      vadd (h_position (head a1)) (h_direction (head a1))\<rparr>\<rparr>"
  define a3 where "a3 = (if h_position (head a2) \<notin> free_space a2 then handler a2 else a2)"
  define a4 where "a4 = occupy_space (h_position (head a3)) a3"
  have unfolded: "SnakeHead_update_with handler PLAY_AREA g =
      (case (if h_position (head a4) = c_position (cherry a4)
             then SnakeHead_on_cherry_eaten a4 else Inr a4) of
         Inl e \<Rightarrow> Inl e
       | Inr g5 \<Rightarrow>
           Inr ((SnakePiece_init (h_position (head a1)) g5)\<lparr>head :=
                  (head (SnakePiece_init (h_position (head a1)) g5))\<lparr>h_position :=
                    wrap_position PLAY_AREA
                      (h_position (head (SnakePiece_init (h_position (head a1)) g5)))\<rparr>\<rparr>))"
    by (simp only: SnakeHead_update_with_def Let_def a1_def a2_def a3_def a4_def)
  have a2: "a2 = g2"
    by (simp add: a2_def a1_def unoccupy_space_eq g2_def n_def p_def d_def vadd_def)
  have a3: "a3 = g3"
    by (simp add: a3_def a2 g3_def) (simp add: g2_def)
  have a4: "a4 = g4"
    by (simp add: a4_def a3 occupy_space_eq g4_def F_def q_def)
  have proj: "h_position (head g4) = q" "cherry g4 = cherry g3" "h_position (head a1) = p"
    by (simp_all add: g4_def q_def a1_def unoccupy_space_eq p_def)
  have init: "\<And>g5. head (SnakePiece_init p g5) = head g5"
    by (simp add: SnakePiece_init_eq)
  have upd: "SnakeHead_update_with handler PLAY_AREA g =
      (case (if q = c_position (cherry g3) then SnakeHead_on_cherry_eaten g4 else Inr g4) of
         Inl e \<Rightarrow> Inl e
       | Inr g5 \<Rightarrow>
           Inr ((SnakePiece_init p g5)\<lparr>head := (head g5)\<lparr>h_position :=
                  wrap_position PLAY_AREA (h_position (head g5))\<rparr>\<rparr>))"
    by (simp only: unfolded a4 proj init)
  have eaten: "SnakeHead_on_cherry_eaten g4 =
      (case cherry_position_lottery F (rng g3) of
         Inl e \<Rightarrow> Inl (e, g4)
       | Inr (c, r') \<Rightarrow>
           Inr (g4\<lparr>cherry := \<lparr>c_position = c\<rparr>, rng := r',
                  head := (head g4)\<lparr>h_length := h_length (head g3) + 1\<rparr>\<rparr>))"
    by (simp add: SnakeHead_on_cherry_eaten_def Cherry_on_being_eaten_def
        Level_on_cherry_eaten_def create_cherry_def g4_def
        split: sum.splits prod.splits)
  show ?thesis
  proof (cases "q = c_position (cherry g3)")
    case False
    with upd show ?thesis
      unfolding Let_def p_def [symmetric] d_def [symmetric] n_def [symmetric]
        g2_def [symmetric] g3_def [symmetric] q_def [symmetric] F_def [symmetric]
      by (simp add: g4_def SnakePiece_init_eq wrap_position_def q_def [symmetric])
  next
    case True
    show ?thesis
    proof (cases "cherry_position_lottery F (rng g3)")
      case (Inl e)
      with True upd eaten show ?thesis
        unfolding Let_def p_def [symmetric] d_def [symmetric] n_def [symmetric]
          g2_def [symmetric] g3_def [symmetric] q_def [symmetric] F_def [symmetric]
        by (simp add: g4_def)
    next
      case (Inr cr)
      obtain c r' where "cr = (c, r')"
        by (cases cr)
      with Inr True upd eaten show ?thesis
        unfolding Let_def p_def [symmetric] d_def [symmetric] n_def [symmetric]
          g2_def [symmetric] g3_def [symmetric] q_def [symmetric] F_def [symmetric]
        by (simp add: g4_def SnakePiece_init_eq wrap_position_def q_def [symmetric])
    qed
  qed
qed

lemma SnakeHead_update_eq:
  "SnakeHead_update PLAY_AREA g =
     (let p = h_position (head g);
          d = h_direction (head g);
          n = (fst p + fst d, snd p + snd d);
          F = insert p (free_space g) - {n};
          ps = pieces g @ [\<lparr>p_position = p, p_age = 0\<rparr>];
          w = (if fst n \<ge> int (fst PLAY_AREA) then 0 else fst n,
               if snd n \<ge> int (snd PLAY_AREA) then 0 else snd n)
      in if n = c_position (cherry g)
         then (case cherry_position_lottery F (rng g) of
                 Inl e \<Rightarrow> Inl (e, g\<lparr>free_space := F, head := (head g)\<lparr>h_position := n\<rparr>\<rparr>)
               | Inr (c, r') \<Rightarrow>
                   Inr (g\<lparr>free_space := F - {p},
                          head := (head g)\<lparr>h_position := w, h_length := h_length (head g) + 1\<rparr>,
                          cherry := \<lparr>c_position = c\<rparr>, pieces := ps, rng := r'\<rparr>))
         else Inr (g\<lparr>free_space := F - {p}, head := (head g)\<lparr>h_position := w\<rparr>,
                     pieces := ps\<rparr>))"
  unfolding SnakeHead_update_def SnakeHead_update_with_eq on_collision_def
  by (simp add: Let_def split: sum.splits prod.splits)

lemma SnakeHead_update_Inr:
  assumes "SnakeHead_update PLAY_AREA g = Inr g'"
  shows "pieces g' = pieces g @ [\<lparr>p_position = h_position (head g), p_age = 0\<rparr>]"
    and "h_length (head g) \<le> h_length (head g')"
    and "h_length (head g') \<le> h_length (head g) + 1"
    and "h_position (head g') =
           (let n = vadd (h_position (head g)) (h_direction (head g))
            in (if fst n \<ge> int (fst PLAY_AREA) then 0 else fst n,
                if snd n \<ge> int (snd PLAY_AREA) then 0 else snd n))"
    and "h_direction (head g') = h_direction (head g)"
    and "should_exit g' = should_exit g"
proof -
  define n where "n = vadd (h_position (head g)) (h_direction (head g))"
  define w where "w = (if fst n \<ge> int (fst PLAY_AREA) then 0 else fst n,
                       if snd n \<ge> int (snd PLAY_AREA) then 0 else snd n)"
  have n: "(fst (h_position (head g)) + fst (h_direction (head g)),
            snd (h_position (head g)) + snd (h_direction (head g))) = n"
    by (simp add: n_def vadd_def)
  have "pieces g' = pieces g @ [\<lparr>p_position = h_position (head g), p_age = 0\<rparr>] \<and>
        h_length (head g) \<le> h_length (head g') \<and> h_length (head g') \<le> h_length (head g) + 1 \<and>
        h_position (head g') = w \<and> h_direction (head g') = h_direction (head g) \<and>
        should_exit g' = should_exit g"
  proof (cases "n = c_position (cherry g)")
    case False
    with assms show ?thesis
      unfolding SnakeHead_update_eq Let_def n w_def [symmetric] by auto
  next
    case True
    show ?thesis
    proof (cases "cherry_position_lottery
        (insert (h_position (head g)) (free_space g) - {n}) (rng g)")
      case (Inl e)
      with True assms show ?thesis
        unfolding SnakeHead_update_eq Let_def n w_def [symmetric] by simp
    next
      case (Inr cr)
      obtain c r' where "cr = (c, r')"
        by (cases cr)
      with Inr True assms show ?thesis
        unfolding SnakeHead_update_eq Let_def n w_def [symmetric] by auto
    qed
  qed
  then show "pieces g' = pieces g @ [\<lparr>p_position = h_position (head g), p_age = 0\<rparr>]"
    and "h_length (head g) \<le> h_length (head g')"
    and "h_length (head g') \<le> h_length (head g) + 1"
    and "h_position (head g') =
           (let n = vadd (h_position (head g)) (h_direction (head g))
            in (if fst n \<ge> int (fst PLAY_AREA) then 0 else fst n,
                if snd n \<ge> int (snd PLAY_AREA) then 0 else snd n))"
    and "h_direction (head g') = h_direction (head g)"
    and "should_exit g' = should_exit g"
    by (simp_all add: w_def n_def Let_def)
qed



section \<open>Properties of the pieces\<close>

lemma SnakePiece_update_eq:
  "SnakePiece_update p g =
     (if h_length (head g) \<le> p_age p + 1
      then (None, g\<lparr>free_space := insert (p_position p) (free_space g)\<rparr>)
      else (Some (p\<lparr>p_age := p_age p + 1\<rparr>), g))"
  by (simp add: SnakePiece_update_def unoccupy_space_eq Let_def)

lemma update_pieces_eq:
  "update_pieces ps g =
     (map (\<lambda>p. p\<lparr>p_age := p_age p + 1\<rparr>) (filter (\<lambda>p. p_age p + 1 < h_length (head g)) ps),
      g\<lparr>free_space := free_space g \<union>
           p_position ` {p \<in> set ps. h_length (head g) \<le> p_age p + 1}\<rparr>)"
proof (induction ps arbitrary: g)
  case Nil
  show ?case by simp
next
  case (Cons a ps)
  show ?case
  proof (cases "h_length (head g) \<le> p_age a + 1")
    case True
    have "insert (p_position a) (free_space g) \<union>
            p_position ` {p \<in> set ps. h_length (head g) \<le> p_age p + 1} =
          free_space g \<union> p_position ` {p \<in> set (a # ps). h_length (head g) \<le> p_age p + 1}"
      using True by auto
    with True show ?thesis
      by (simp add: SnakePiece_update_eq Cons.IH)
  next
    case False
    have "p_position ` {p \<in> set ps. h_length (head g) \<le> p_age p + 1} =
          p_position ` {p \<in> set (a # ps). h_length (head g) \<le> p_age p + 1}"
      using False by auto
    with False show ?thesis
      by (simp add: SnakePiece_update_eq Cons.IH)
  qed
qed

lemma Snake_run_step_Inr:
  assumes "Snake_run_step PLAY_AREA g = Inr g'"
  shows "pieces g' =
           map (\<lambda>p. p\<lparr>p_age := p_age p + 1\<rparr>)
             (filter (\<lambda>p. p_age p + 1 < h_length (head g')) (pieces g)) @
           [\<lparr>p_position = h_position (head g), p_age = 0\<rparr>]"
    and "h_length (head g) \<le> h_length (head g')"
    and "h_length (head g') \<le> h_length (head g) + 1"
    and "h_position (head g') =
           (let n = vadd (h_position (head g)) (controller_direction g)
            in (if fst n \<ge> int (fst PLAY_AREA) then 0 else fst n,
                if snd n \<ge> int (snd PLAY_AREA) then 0 else snd n))"
    and "should_exit g' = should_exit g"
proof -
  from assms obtain g1 where g1: "SnakeHead_update PLAY_AREA (update_input g) = Inr g1"
    by (cases "SnakeHead_update PLAY_AREA (update_input g)") (simp_all add: Snake_run_step_def)
  note h = SnakeHead_update_Inr [OF g1]
  have ps: "pieces g1 = pieces g @ [\<lparr>p_position = h_position (head g), p_age = 0\<rparr>]"
    using h(1) by (simp add: update_input_def)
  from assms g1 have g': "g' = (snd (update_pieces (pieces g) g1))\<lparr>pieces :=
      fst (update_pieces (pieces g) g1) @ [\<lparr>p_position = h_position (head g), p_age = 0\<rparr>]\<rparr>"
    by (simp add: Snake_run_step_def ps split: prod.splits)
  have hd: "head g' = head g1" and ex: "should_exit g' = should_exit g1"
    by (simp_all add: g' update_pieces_eq)
  show "pieces g' =
           map (\<lambda>p. p\<lparr>p_age := p_age p + 1\<rparr>)
             (filter (\<lambda>p. p_age p + 1 < h_length (head g')) (pieces g)) @
           [\<lparr>p_position = h_position (head g), p_age = 0\<rparr>]"
    unfolding hd by (simp add: g' update_pieces_eq)
  show "h_length (head g) \<le> h_length (head g')"
    using h(2) by (simp add: hd update_input_def)
  show "h_length (head g') \<le> h_length (head g) + 1"
    using h(3) by (simp add: hd update_input_def)
  show "h_position (head g') =
           (let n = vadd (h_position (head g)) (controller_direction g)
            in (if fst n \<ge> int (fst PLAY_AREA) then 0 else fst n,
                if snd n \<ge> int (snd PLAY_AREA) then 0 else snd n))"
    using h(4) by (simp add: hd update_input_def)
  show "should_exit g' = should_exit g"
    using h(6) by (simp add: ex update_input_def)
qed

lemma ages_shift:
  "map (\<lambda>a. a + 1) (rev (map int [0..<k])) @ [0] = rev (map int [0..<Suc k])"
proof -
  have "[0..<Suc k] = 0 # map Suc [0..<k]"
    by (simp add: upt_conv_Cons map_Suc_upt del: upt_Suc)
  then have "rev (map int [0..<Suc k]) = rev (map int (map Suc [0..<k])) @ [0]"
    by (simp del: upt_Suc)
  also have "map int (map Suc [0..<k]) = map (\<lambda>a. a + 1) (map int [0..<k])"
    by simp
  finally show ?thesis
    by (simp add: rev_map del: upt_Suc)
qed

lemma ages_step:
  assumes "int m \<le> L'" and "1 \<le> L'"
  shows "map (\<lambda>a. a + 1) (filter (\<lambda>a. a + 1 < L') (rev (map int [0..<m]))) @ [0] =
         rev (map int [0..<min (Suc m) (nat L')])"
proof (cases "int m < L'")
  case True
  then have "filter (\<lambda>a. a + 1 < L') (rev (map int [0..<m])) = rev (map int [0..<m])"
    by (intro filter_True) auto
  moreover from True have "min (Suc m) (nat L') = Suc m"
    by simp
  ultimately show ?thesis
    by (simp only: ages_shift)
next
  case False
  with assms have eq: "L' = int m"
    by simp
  with assms obtain k where k: "m = Suc k"
    by (cases m) simp_all
  have "filter (\<lambda>a. a + 1 < L') (rev (map int [0..<m])) = rev (map int [0..<k])"
    unfolding eq k by (simp add: filter_empty_conv)
  moreover have "min (Suc m) (nat L') = Suc k"
    unfolding eq k by simp
  ultimately show ?thesis
    by (simp only: ages_shift)
qed

lemma Snake_run_step_ages:
  assumes "Snake_run_step PLAY_AREA g = Inr g'"
    and "map p_age (pieces g) = rev (map int [0..<m])"
    and "int m \<le> h_length (head g)" and "1 \<le> h_length (head g)"
  shows "map p_age (pieces g') = rev (map int [0..<min (Suc m) (nat (h_length (head g')))])"
proof -
  note s = Snake_run_step_Inr [OF assms(1)]
  have "map p_age (pieces g') =
      map (\<lambda>a. a + 1) (filter (\<lambda>a. a + 1 < h_length (head g')) (map p_age (pieces g))) @ [0]"
    unfolding s(1) by (simp add: filter_map comp_def)
  also have "\<dots> = rev (map int [0..<min (Suc m) (nat (h_length (head g')))])"
    unfolding assms(2) using assms(3,4) s(2) by (intro ages_step) simp_all
  finally show ?thesis .
qed

lemma ticks_ages:
  assumes "ticks PLAY_AREA g ds = Inr g'"
    and "map p_age (pieces g) = rev (map int [0..<m])"
    and "int m \<le> h_length (head g)" and "1 \<le> h_length (head g)"
  shows "map p_age (pieces g') =
           rev (map int [0..<min (m + length ds) (nat (h_length (head g')))]) \<and>
         h_length (head g) \<le> h_length (head g') \<and>
         h_length (head g') \<le> h_length (head g) + int (length ds)"
  using assms
proof (induction ds arbitrary: g m)
  case Nil
  then show ?case by simp
next
  case (Cons d ds)
  let ?g = "g\<lparr>controller_direction := d\<rparr>"
  from Cons.prems(1) obtain g1 where g1: "Snake_run_step PLAY_AREA ?g = Inr g1"
    and rest: "ticks PLAY_AREA g1 ds = Inr g'"
    by (cases "Snake_run_step PLAY_AREA ?g") simp_all
  note s = Snake_run_step_Inr [OF g1]
  have L: "h_length (head g) \<le> h_length (head g1)" "h_length (head g1) \<le> h_length (head g) + 1"
    using s(2,3) by simp_all
  have ages1: "map p_age (pieces g1) = rev (map int [0..<min (Suc m) (nat (h_length (head g1)))])"
    using Cons.prems by (intro Snake_run_step_ages [OF g1]) simp_all
  have le1: "int (min (Suc m) (nat (h_length (head g1)))) \<le> h_length (head g1)"
    using L Cons.prems(4) by simp
  have one1: "1 \<le> h_length (head g1)"
    using L Cons.prems(4) by simp
  note ih = Cons.IH [OF rest ages1 le1 one1]
  have "min (min (Suc m) (nat (h_length (head g1))) + length ds) (nat (h_length (head g'))) =
        min (m + length (d # ds)) (nat (h_length (head g')))"
    using ih L by auto
  with ih L show ?case
    by auto
qed

lemma example_game_reached: "Level_init (4, 4) (\<lambda>i. 4) = Inr (example_game 4 (1, 0))"
  unfolding Level_init_def create_cherry_def cherry_position_lottery_def example_game_def
  by (simp add: grid_4_4 Let_def del: set_concat)

text \<open>
  C5. \<^verbatim>\<open>SnakePiece.update\<close> adds one to the age and then, exactly when
  \<open>head.length - age \<le> 0\<close> for the new age, releases the piece's cell and destroys the
  piece. In ticks: let \<open>g1\<close> be the game after the ticks \<open>ds\<close> from the start and
  \<open>g2\<close> the game after one more tick. The live pieces of \<open>g1\<close> are, oldest first,
  those spawned in the last \<open>min (length ds) length\<close> ticks, the piece spawned \<open>a\<close>
  ticks before the last one having age \<open>a\<close>; the head's length is at least 3 and does not
  shrink; the tick ages every live piece by one, removes exactly those whose new age is not
  below the head's length after the head's move in that tick, and appends the new piece with
  age 0. So a live piece of age \<open>a\<close> is destroyed by the tick exactly when \<open>a + 1\<close>
  is the head's length at that check: spawned in tick \<open>t\<close>, it is destroyed in tick
  \<open>t + L'\<close>, with \<open>L'\<close> the length at the check that destroys it.
\<close>

theorem piece_update_and_lifetime:
  "SnakePiece_update p g =
     (if h_length (head g) \<le> p_age p + 1
      then (None, g\<lparr>free_space := insert (p_position p) (free_space g)\<rparr>)
      else (Some (p\<lparr>p_age := p_age p + 1\<rparr>), g)) \<and>
   (Level_init PLAY_AREA r = Inr g0 \<and> ticks PLAY_AREA g0 ds = Inr g1 \<and>
    Snake_run_step PLAY_AREA (g1\<lparr>controller_direction := d\<rparr>) = Inr g2 \<longrightarrow>
      map p_age (pieces g1) = rev (map int [0..<min (length ds) (nat (h_length (head g1)))]) \<and>
      3 \<le> h_length (head g1) \<and> h_length (head g1) \<le> h_length (head g2) \<and>
      pieces g2 =
        map (\<lambda>p. p\<lparr>p_age := p_age p + 1\<rparr>)
          (filter (\<lambda>p. p_age p + 1 < h_length (head g2)) (pieces g1)) @
        [\<lparr>p_position = h_position (head g1), p_age = 0\<rparr>] \<and>
      (a \<in> p_age ` set (pieces g1) \<longrightarrow>
         (a + 1 \<notin> p_age ` set (pieces g2) \<longleftrightarrow> a + 1 = h_length (head g2))))"
proof (intro conjI impI)
  show "SnakePiece_update p g =
     (if h_length (head g) \<le> p_age p + 1
      then (None, g\<lparr>free_space := insert (p_position p) (free_space g)\<rparr>)
      else (Some (p\<lparr>p_age := p_age p + 1\<rparr>), g))"
    by (rule SnakePiece_update_eq)
next
  assume "Level_init PLAY_AREA r = Inr g0 \<and> ticks PLAY_AREA g0 ds = Inr g1 \<and>
    Snake_run_step PLAY_AREA (g1\<lparr>controller_direction := d\<rparr>) = Inr g2"
  then have init: "Level_init PLAY_AREA r = Inr g0" and run: "ticks PLAY_AREA g0 ds = Inr g1"
    and tick: "Snake_run_step PLAY_AREA (g1\<lparr>controller_direction := d\<rparr>) = Inr g2"
    by simp_all
  from init have g0: "pieces g0 = []" "h_length (head g0) = 3"
    by (auto simp: Level_init_def SnakeHead_init_def Let_def split: sum.splits prod.splits)
  have "map p_age (pieces g0) = rev (map int [0..<0])" "int 0 \<le> h_length (head g0)"
    "1 \<le> h_length (head g0)"
    by (simp_all add: g0)
  from ticks_ages [OF run this]
  have ages1: "map p_age (pieces g1) =
      rev (map int [0..<min (length ds) (nat (h_length (head g1)))])"
    and L1: "3 \<le> h_length (head g1)"
    by (simp_all add: g0)
  note s = Snake_run_step_Inr [OF tick]
  have L2: "h_length (head g1) \<le> h_length (head g2)"
    using s(2) by simp
  have ps2: "pieces g2 =
        map (\<lambda>p. p\<lparr>p_age := p_age p + 1\<rparr>)
          (filter (\<lambda>p. p_age p + 1 < h_length (head g2)) (pieces g1)) @
        [\<lparr>p_position = h_position (head g1), p_age = 0\<rparr>]"
    using s(1) by simp
  define m where "m = min (length ds) (nat (h_length (head g1)))"
  have ages2: "map p_age (pieces g2) = rev (map int [0..<min (Suc m) (nat (h_length (head g2)))])"
    using ages1 L1 by (intro Snake_run_step_ages [OF tick]) (simp_all add: m_def)
  have set1: "p_age ` set (pieces g1) = int ` {0..<m}"
    using arg_cong [OF ages1, of set] by (simp add: m_def)
  have set2: "p_age ` set (pieces g2) = int ` {0..<min (Suc m) (nat (h_length (head g2)))}"
    using arg_cong [OF ages2, of set] by simp
  show "map p_age (pieces g1) = rev (map int [0..<min (length ds) (nat (h_length (head g1)))])"
    by (rule ages1)
  show "3 \<le> h_length (head g1)"
    by (rule L1)
  show "h_length (head g1) \<le> h_length (head g2)"
    by (rule L2)
  show "pieces g2 =
        map (\<lambda>p. p\<lparr>p_age := p_age p + 1\<rparr>)
          (filter (\<lambda>p. p_age p + 1 < h_length (head g2)) (pieces g1)) @
        [\<lparr>p_position = h_position (head g1), p_age = 0\<rparr>]"
    by (rule ps2)
  assume "a \<in> p_age ` set (pieces g1)"
  then obtain k where k: "a = int k" "k < m"
    unfolding set1 by auto
  have "a + 1 \<in> p_age ` set (pieces g2) \<longleftrightarrow> Suc k < min (Suc m) (nat (h_length (head g2)))"
  proof -
    have "int k + 1 = int (Suc k)"
      by simp
    then show ?thesis
      unfolding set2 k(1) by (simp only: inj_image_mem_iff [OF inj_of_nat] atLeastLessThan_iff) simp
  qed
  also have "\<dots> \<longleftrightarrow> int k + 1 < h_length (head g2)"
    using k(2) by auto
  finally have "a + 1 \<notin> p_age ` set (pieces g2) \<longleftrightarrow> h_length (head g2) \<le> int k + 1"
    by auto
  moreover have "int k + 1 \<le> h_length (head g2)"
    using k(2) L2 L1 unfolding m_def by linarith
  ultimately show "a + 1 \<notin> p_age ` set (pieces g2) \<longleftrightarrow> a + 1 = h_length (head g2)"
    using k(1) by auto
qed

theorem piece_update_and_lifetime_witness:
  "Level_init (4, 4) (\<lambda>i. 4) = Inr (example_game 4 (1, 0)) \<and>
   \<not> isl (ticks (4, 4) (example_game 4 (1, 0)) [(1, 0), (1, 0), (1, 0), (1, 0)]) \<and>
   \<not> isl (Snake_run_step (4, 4) ((projr (ticks (4, 4) (example_game 4 (1, 0)) [(1, 0), (1, 0), (1, 0), (1, 0)]))\<lparr>controller_direction := (0, 1)\<rparr>)) \<and>
   map p_age (pieces (projr (ticks (4, 4) (example_game 4 (1, 0)) [(1, 0), (1, 0), (1, 0), (1, 0)]))) = [3, 2, 1, 0] \<and>
   3 \<in> p_age ` set (pieces (projr (ticks (4, 4) (example_game 4 (1, 0)) [(1, 0), (1, 0), (1, 0), (1, 0)]))) \<and>
   3 + 1 \<notin> p_age ` set (pieces (projr (Snake_run_step (4, 4) ((projr (ticks (4, 4) (example_game 4 (1, 0)) [(1, 0), (1, 0), (1, 0), (1, 0)]))\<lparr>controller_direction := (0, 1)\<rparr>)))) \<and>
   3 + 1 = h_length (head (projr (Snake_run_step (4, 4) ((projr (ticks (4, 4) (example_game 4 (1, 0)) [(1, 0), (1, 0), (1, 0), (1, 0)]))\<lparr>controller_direction := (0, 1)\<rparr>))))"
proof -
  have run: "\<not> isl (ticks (4, 4) (example_game 4 (1, 0)) [(1, 0), (1, 0), (1, 0), (1, 0)])"
    by code_simp
  have tick: "\<not> isl (Snake_run_step (4, 4) ((projr (ticks (4, 4) (example_game 4 (1, 0)) [(1, 0), (1, 0), (1, 0), (1, 0)]))\<lparr>controller_direction := (0, 1)\<rparr>))"
    by code_simp
  have ages: "map p_age (pieces (projr (ticks (4, 4) (example_game 4 (1, 0)) [(1, 0), (1, 0), (1, 0), (1, 0)]))) = [3, 2, 1, 0]"
    by code_simp
  have old: "3 \<in> p_age ` set (pieces (projr (ticks (4, 4) (example_game 4 (1, 0)) [(1, 0), (1, 0), (1, 0), (1, 0)])))"
    by code_simp
  have gone: "3 + 1 \<notin> p_age ` set (pieces (projr (Snake_run_step (4, 4) ((projr (ticks (4, 4) (example_game 4 (1, 0)) [(1, 0), (1, 0), (1, 0), (1, 0)]))\<lparr>controller_direction := (0, 1)\<rparr>))))"
    by code_simp
  from run have r: "ticks (4, 4) (example_game 4 (1, 0)) [(1, 0), (1, 0), (1, 0), (1, 0)] = Inr (projr (ticks (4, 4) (example_game 4 (1, 0)) [(1, 0), (1, 0), (1, 0), (1, 0)]))"
    by simp
  from tick have t: "(Snake_run_step (4, 4) ((projr (ticks (4, 4) (example_game 4 (1, 0)) [(1, 0), (1, 0), (1, 0), (1, 0)]))\<lparr>controller_direction := (0, 1)\<rparr>)) = Inr (projr (Snake_run_step (4, 4) ((projr (ticks (4, 4) (example_game 4 (1, 0)) [(1, 0), (1, 0), (1, 0), (1, 0)]))\<lparr>controller_direction := (0, 1)\<rparr>)))"
    by simp
  from piece_update_and_lifetime [of undefined undefined "(4, 4)" "\<lambda>i. 4" "example_game 4 (1, 0)"
      "[(1, 0), (1, 0), (1, 0), (1, 0)]" "(projr (ticks (4, 4) (example_game 4 (1, 0)) [(1, 0), (1, 0), (1, 0), (1, 0)]))" "(0, 1)" "(projr (Snake_run_step (4, 4) ((projr (ticks (4, 4) (example_game 4 (1, 0)) [(1, 0), (1, 0), (1, 0), (1, 0)]))\<lparr>controller_direction := (0, 1)\<rparr>)))" 3]
    example_game_reached r t old gone
  have "3 + 1 = h_length (head (projr (Snake_run_step (4, 4) ((projr (ticks (4, 4) (example_game 4 (1, 0)) [(1, 0), (1, 0), (1, 0), (1, 0)]))\<lparr>controller_direction := (0, 1)\<rparr>))))"
    by blast
  with example_game_reached run tick ages old gone show ?thesis
    by blast
qed

section \<open>Properties of runs\<close>

lemma Snake_run_step_eq:
  "Snake_run_step PLAY_AREA g =
     (case SnakeHead_update PLAY_AREA (update_input g) of
        Inl e \<Rightarrow> Inl e
      | Inr g1 \<Rightarrow>
          Inr (g1\<lparr>free_space := free_space g1 \<union>
                     p_position ` {p \<in> set (pieces g). h_length (head g1) \<le> p_age p + 1},
                   pieces := map (\<lambda>p. p\<lparr>p_age := p_age p + 1\<rparr>)
                       (filter (\<lambda>p. p_age p + 1 < h_length (head g1)) (pieces g)) @
                     [\<lparr>p_position = h_position (head g), p_age = 0\<rparr>]\<rparr>))"
proof (cases "SnakeHead_update PLAY_AREA (update_input g)")
  case (Inl e)
  then show ?thesis
    by (simp add: Snake_run_step_def)
next
  case (Inr g1)
  from SnakeHead_update_Inr(1) [OF Inr]
  have ps: "pieces g1 = pieces g @ [\<lparr>p_position = h_position (head g), p_age = 0\<rparr>]"
    by (simp add: update_input_def)
  show ?thesis
    by (simp add: Snake_run_step_def Inr ps update_pieces_eq)
qed

lemma SnakeHead_update_more:
  fixes g :: Game
  defines "n \<equiv> vadd (h_position (head g)) (h_direction (head g))"
  shows "SnakeHead_update PLAY_AREA g = Inl e \<Longrightarrow>
           n = c_position (cherry g) \<and>
           cherry_position_lottery (insert (h_position (head g)) (free_space g) - {n}) (rng g) =
             Inl (fst e)"
    and "SnakeHead_update PLAY_AREA g = Inr g' \<Longrightarrow>
           free_space g' = insert (h_position (head g)) (free_space g) - {n} - {h_position (head g)}"
    and "SnakeHead_update PLAY_AREA g = Inr g' \<Longrightarrow> n \<noteq> c_position (cherry g) \<Longrightarrow>
           cherry g' = cherry g \<and> h_length (head g') = h_length (head g) \<and> rng g' = rng g"
proof -
  have n: "(fst (h_position (head g)) + fst (h_direction (head g)),
            snd (h_position (head g)) + snd (h_direction (head g))) = n"
    by (simp add: n_def vadd_def)
  have upd: "SnakeHead_update PLAY_AREA g =
     (if n = c_position (cherry g)
         then (case cherry_position_lottery (insert (h_position (head g)) (free_space g) - {n}) (rng g) of
                 Inl e \<Rightarrow> Inl (e, g\<lparr>free_space := insert (h_position (head g)) (free_space g) - {n},
                     head := (head g)\<lparr>h_position := n\<rparr>\<rparr>)
               | Inr (c, r') \<Rightarrow>
                   Inr (g\<lparr>free_space := insert (h_position (head g)) (free_space g) - {n} - {h_position (head g)},
                          head := (head g)\<lparr>h_position := (if fst n \<ge> int (fst PLAY_AREA) then 0 else fst n,
               if snd n \<ge> int (snd PLAY_AREA) then 0 else snd n), h_length := h_length (head g) + 1\<rparr>,
                          cherry := \<lparr>c_position = c\<rparr>, pieces := pieces g @ [\<lparr>p_position = h_position (head g), p_age = 0\<rparr>], rng := r'\<rparr>))
         else Inr (g\<lparr>free_space := insert (h_position (head g)) (free_space g) - {n} - {h_position (head g)},
                   head := (head g)\<lparr>h_position := (if fst n \<ge> int (fst PLAY_AREA) then 0 else fst n,
               if snd n \<ge> int (snd PLAY_AREA) then 0 else snd n)\<rparr>,
                     pieces := pieces g @ [\<lparr>p_position = h_position (head g), p_age = 0\<rparr>]\<rparr>))"
    unfolding SnakeHead_update_eq Let_def n by (rule refl)
  show "SnakeHead_update PLAY_AREA g = Inl e \<Longrightarrow>
           n = c_position (cherry g) \<and>
           cherry_position_lottery (insert (h_position (head g)) (free_space g) - {n}) (rng g) =
             Inl (fst e)"
    unfolding upd by (auto split: if_splits sum.splits prod.splits)
  show "SnakeHead_update PLAY_AREA g = Inr g' \<Longrightarrow>
           free_space g' = insert (h_position (head g)) (free_space g) - {n} - {h_position (head g)}"
    unfolding upd by (auto split: if_splits sum.splits prod.splits)
  show "SnakeHead_update PLAY_AREA g = Inr g' \<Longrightarrow> n \<noteq> c_position (cherry g) \<Longrightarrow>
           cherry g' = cherry g \<and> h_length (head g') = h_length (head g) \<and> rng g' = rng g"
    unfolding upd by (auto split: if_splits sum.splits prod.splits)
qed

lemma Snake_run_step_total:
  assumes "finite (free_space g)" and "controller_direction g \<noteq> (0, 0)"
  shows "\<exists>g'. Snake_run_step PLAY_AREA g = Inr g' \<and> finite (free_space g')"
proof -
  define gi where "gi = update_input g"
  define p where "p = h_position (head gi)"
  define n where "n = vadd p (h_direction (head gi))"
  define F where "F = insert p (free_space gi) - {n}"
  have "p \<noteq> n"
    using assms(2) unfolding n_def gi_def update_input_def vadd_def
    by (cases p, cases "controller_direction g") auto
  then have "p \<in> F"
    by (simp add: F_def)
  then have ne: "F \<noteq> {}"
    by auto
  have fin: "finite F"
    using assms(1) by (simp add: F_def gi_def update_input_def)
  obtain c where c: "cherry_position_lottery F (rng gi) = Inr (c, \<lambda>i. rng gi (Suc i))"
    using lottery_draws_member [OF fin ne] by blast
  have "\<exists>g1. SnakeHead_update PLAY_AREA gi = Inr g1"
  proof (cases "SnakeHead_update PLAY_AREA gi")
    case (Inl e)
    have "cherry_position_lottery F (rng gi) = Inl (fst e)"
      unfolding F_def n_def p_def by (rule conjunct2 [OF SnakeHead_update_more(1) [OF Inl]])
    with c show ?thesis
      by simp
  next
    case (Inr g1)
    then show ?thesis by blast
  qed
  then obtain g1 where g1: "SnakeHead_update PLAY_AREA gi = Inr g1"
    by blast
  from SnakeHead_update_more(2) [OF g1] have f1: "free_space g1 = F - {p}"
    by (simp add: F_def n_def p_def)
  show ?thesis
    unfolding Snake_run_step_eq gi_def [symmetric] g1 using fin by (simp add: f1)
qed

lemma ticks_total:
  assumes "finite (free_space g)" and "(0, 0) \<notin> set ds"
  shows "\<exists>g'. ticks PLAY_AREA g ds = Inr g' \<and> finite (free_space g')"
  using assms
proof (induction ds arbitrary: g)
  case Nil
  then show ?case by simp
next
  case (Cons d ds)
  have "finite (free_space (g\<lparr>controller_direction := d\<rparr>))"
    "controller_direction (g\<lparr>controller_direction := d\<rparr>) \<noteq> (0, 0)"
    using Cons.prems by auto
  from Snake_run_step_total [OF this] obtain g1
    where g1: "Snake_run_step PLAY_AREA (g\<lparr>controller_direction := d\<rparr>) = Inr g1"
      and fin: "finite (free_space g1)"
    by blast
  from Cons.IH [OF fin] Cons.prems(2) obtain g' where "ticks PLAY_AREA g1 ds = Inr g'"
    and "finite (free_space g')"
    by auto
  with g1 show ?case
    by simp
qed










lemma example_init:
  "SnakeEnv_init (4, 4) (example_class d) (example_class d) 4 4 True =
     Inr \<lparr>width = 4, height = 4, headless = True, loop = False, game_cls = example_class d,
          game = None, random = RandomState 1234 0\<rparr>"
  by (simp add: SnakeEnv_init_def SnakeGameState_init_def seed_def new_RandomState_def)


lemma example_reset_0:
  "reset (\<lambda>s n. 0) \<lparr>width = 4, height = 4, headless = True, loop = False,
       game_cls = example_class 0, game = None, random = RandomState 1234 0\<rparr> =
     Inr (example_state 0 (0, 0))"
  unfolding reset_def randint_def example_class_def Snake_game_class_def Level_init_def
    create_cherry_def cherry_position_lottery_def example_state_def example_game_def
  by (simp add: grid_4_4 del: set_concat)

text \<open>
  C9. On the 4 by 4 grid, \<^verbatim>\<open>reset()\<close> with a lottery that draws the first free cell:
  \<^verbatim>\<open>SnakeHead.init\<close> occupies nothing, so \<open>(0, 0)\<close> is still free when the first
  cherry is drawn, and the cherry is put on the head's cell. The observation has its one
  cherry mark (channel 3) on cell \<open>(0, 0)\<close>, together with the head's mark (channel 1).
\<close>

theorem reset_cherry_on_head:
  "(case SnakeEnv_init (4, 4) (example_class 0) (example_class 0) 4 4 True of
      Inl e \<Rightarrow> Inl e
    | Inr st \<Rightarrow> map_sum id fst (SnakeEnv_reset (\<lambda>s n. 0) st)) =
   Inr [[[0, 1, 0, 1], [0, 0, 0, 0], [0, 0, 0, 0], [0, 0, 0, 0]],
        [[0, 0, 1, 0], [0, 0, 0, 0], [0, 0, 0, 0], [0, 0, 0, 0]],
        [[0, 0, 0, 0], [0, 0, 0, 0], [0, 0, 0, 0], [0, 0, 0, 0]],
        [[0, 0, 0, 0], [0, 0, 0, 0], [0, 0, 0, 0], [0, 0, 0, 0]]]"
proof -
  have "encode (example_state 0 (0, 0)) =
      Inr [[[0, 1, 0, 1], [0, 0, 0, 0], [0, 0, 0, 0], [0, 0, 0, 0]],
           [[0, 0, 1, 0], [0, 0, 0, 0], [0, 0, 0, 0], [0, 0, 0, 0]],
           [[0, 0, 0, 0], [0, 0, 0, 0], [0, 0, 0, 0], [0, 0, 0, 0]],
           [[0, 0, 0, 0], [0, 0, 0, 0], [0, 0, 0, 0], [0, 0, 0, 0]]]"
    by (simp add: encode_def example_state_def example_game_def SnakeHead_init_def zeros_4_4_4
        in_bounds_def set_item_def np_index_def vadd_def)
  then show ?thesis
    by (simp add: example_init SnakeEnv_reset_def example_reset_0)
qed




section \<open>Properties of the observation tensor\<close>










section \<open>Properties of seeded episodes\<close>














end
